theory Spec2Isabelle
  imports Complex_Main "HOL-Library.Sublist"
begin

section \<open>Strings\<close>

text \<open>
  Python strings are modelled as HOL strings. \<open>str.lower()\<close> and \<open>str.upper()\<close> act on
  the ASCII letters and leave every other character alone; no character outside
  \<open>A\<close>..\<open>Z\<close> lowers to a hexadecimal digit, to \<open>0\<close> or to \<open>x\<close>.
\<close>

definition lower_char :: "char \<Rightarrow> char" where
  "lower_char c =
     (case map_of (zip ''ABCDEFGHIJKLMNOPQRSTUVWXYZ'' ''abcdefghijklmnopqrstuvwxyz'') c of
        Some d \<Rightarrow> d
      | None \<Rightarrow> c)"

definition str_lower :: "string \<Rightarrow> string" where
  "str_lower s = map lower_char s"

definition upper_char :: "char \<Rightarrow> char" where
  "upper_char c =
     (case map_of (zip ''abcdefghijklmnopqrstuvwxyz'' ''ABCDEFGHIJKLMNOPQRSTUVWXYZ'') c of
        Some d \<Rightarrow> d
      | None \<Rightarrow> c)"

definition str_upper :: "string \<Rightarrow> string" where
  "str_upper s = map upper_char s"

text \<open>
  \<open>s.replace('0x', '')\<close>: Python scans from the left and deletes every non-overlapping
  occurrence of the two characters, wherever it stands.
\<close>

fun replace_0x :: "string \<Rightarrow> string" where
  "replace_0x (a # b # rest) =
     (if a = CHR ''0'' \<and> b = CHR ''x'' then replace_0x rest
      else a # replace_0x (b # rest))"
| "replace_0x s = s"

text \<open>\<open>c in '0123456789abcdef'\<close> for a single character \<open>c\<close>.\<close>

definition is_hex_char :: "char \<Rightarrow> bool" where
  "is_hex_char c = (c \<in> set ''0123456789abcdef'')"

section \<open>utils.py: the validators\<close>

text \<open>
  The three \<open>ValueError\<close>s of a validator. \<open>InvalidLength n\<close> carries \<open>len(clean)\<close>, the
  number its message prints.
\<close>

datatype value_error = Required | InvalidLength nat | InvalidHexCharacters

definition format_address :: "string \<Rightarrow> value_error + string" where
  "format_address address =
     (if address = [] then Inl Required
      else
        let clean = replace_0x (str_lower address) in
        if length clean \<noteq> 40 then Inl (InvalidLength (length clean))
        else if \<not> list_all is_hex_char clean then Inl InvalidHexCharacters
        else Inr (''0x'' @ clean))"

definition format_condition_id :: "string \<Rightarrow> value_error + string" where
  "format_condition_id condition_id =
     (if condition_id = [] then Inl Required
      else
        let clean = replace_0x (str_lower condition_id) in
        if length clean \<noteq> 64 then Inl (InvalidLength (length clean))
        else if \<not> list_all is_hex_char clean then Inl InvalidHexCharacters
        else Inr (''0x'' @ clean))"

section \<open>Numbers\<close>

text \<open>
  A number as \<open>response.json()\<close> delivers it: a finite value, or one of the three values
  that Python's JSON reader accepts as \<open>Infinity\<close>, \<open>-Infinity\<close> and \<open>NaN\<close>. Finite values
  are exact (reals): the rounding of floating-point arithmetic is not modelled. Addition,
  the comparisons and \<open>abs\<close> follow Python's floats: every comparison with \<open>NaN\<close> is false,
  and \<open>NaN\<close> and the sum of the two infinities are \<open>NaN\<close>.
\<close>

datatype number = Num real | PosInf | NegInf | NaN

fun num_add :: "number \<Rightarrow> number \<Rightarrow> number" where
  "num_add NaN y = NaN"
| "num_add x NaN = NaN"
| "num_add (Num a) (Num b) = Num (a + b)"
| "num_add PosInf NegInf = NaN"
| "num_add NegInf PosInf = NaN"
| "num_add PosInf y = PosInf"
| "num_add NegInf y = NegInf"
| "num_add (Num a) y = y"

fun num_less :: "number \<Rightarrow> number \<Rightarrow> bool" where
  "num_less NaN y = False"
| "num_less x NaN = False"
| "num_less (Num a) (Num b) = (a < b)"
| "num_less x NegInf = False"
| "num_less PosInf y = False"
| "num_less NegInf y = True"
| "num_less (Num a) PosInf = True"

definition num_greater :: "number \<Rightarrow> number \<Rightarrow> bool" where
  "num_greater x y = num_less y x"

fun num_abs :: "number \<Rightarrow> number" where
  "num_abs (Num a) = Num \<bar>a\<bar>"
| "num_abs PosInf = PosInf"
| "num_abs NegInf = PosInf"
| "num_abs NaN = NaN"

section \<open>utils.py: the display formatters\<close>

text \<open>
  The two markers are the code points U+1F4C8 and U+1F4C9, written as their UTF-8 bytes.
  The rendering of the number itself (\<open>format(x, ',.2f')\<close> and \<open>format(x, '.2f')\<close>) belongs
  to Python, not to this repository: the formatters take it as the parameter \<open>fixed2\<close>.
\<close>

definition chart_increasing :: string where
  "chart_increasing = [CHR 0xF0, CHR 0x9F, CHR 0x93, CHR 0x88]"

definition chart_decreasing :: string where
  "chart_decreasing = [CHR 0xF0, CHR 0x9F, CHR 0x93, CHR 0x89]"

definition format_pnl :: "(number \<Rightarrow> string) \<Rightarrow> number \<Rightarrow> string" where
  "format_pnl fixed2 pnl =
     (if num_greater pnl (Num 0) then ''+$'' @ fixed2 pnl @ '' '' @ chart_increasing
      else if num_less pnl (Num 0) then ''-$'' @ fixed2 (num_abs pnl) @ '' '' @ chart_decreasing
      else ''$'' @ fixed2 pnl)"

definition format_percentage :: "(number \<Rightarrow> string) \<Rightarrow> number \<Rightarrow> string" where
  "format_percentage fixed2 percent =
     (if num_greater percent (Num 0) then ''+'' @ fixed2 percent @ ''% '' @ chart_increasing
      else if num_less percent (Num 0) then fixed2 percent @ ''% '' @ chart_decreasing
      else fixed2 percent @ ''%'')"

section \<open>Records read from JSON\<close>

text \<open>
  A position, a leaderboard entry: a dictionary from field names to numbers.
  \<open>dict_get d k v\<close> is \<open>d.get(k, v)\<close>; \<open>py_sum\<close> is the built-in \<open>sum\<close>, which starts
  from 0 and adds from the left.
\<close>

type_synonym json_object = "string \<rightharpoonup> number"

definition dict_get :: "json_object \<Rightarrow> string \<Rightarrow> number \<Rightarrow> number" where
  "dict_get d k v = (case d k of Some x \<Rightarrow> x | None \<Rightarrow> v)"

definition py_sum :: "number list \<Rightarrow> number" where
  "py_sum xs = foldl num_add (Num 0) xs"

text \<open>\<open>sum(p.get(k, 0) for p in ps)\<close>, as get_leaderboard.py and get_user_positions.py write it.\<close>

definition sum_field :: "string \<Rightarrow> json_object list \<Rightarrow> number" where
  "sum_field k ps = py_sum (map (\<lambda>p. dict_get p k (Num 0)) ps)"

section \<open>The remote API\<close>

text \<open>
  A request is what \<open>requests.get\<close> is given: the address, the query parameters in the
  order of the dictionary, and the \<open>timeout\<close> keyword (\<open>None\<close> when the call passes none).
  The remote side is a function from the request to what comes back. Every function that
  calls the API returns, with its result, the events it caused: the requests it sent and
  the lines it printed (the fixed text of each line, without the interpolated values).
\<close>

datatype param_value = PStr string | PInt int

record request =
  url :: string
  params :: "(string \<times> param_value) list"
  timeout :: "nat option"

datatype http_outcome = ConnectionFailed | TimedOut | Response nat "json_object list"

type_synonym remote = "request \<Rightarrow> http_outcome"

datatype request_exception = ConnectionError | Timeout | HTTPError nat

datatype exn = ValueError value_error | RequestException request_exception

datatype event = Sent request | Printed string

definition requests_get ::
  "remote \<Rightarrow> request \<Rightarrow> request_exception + (nat \<times> json_object list)" where
  "requests_get api req =
     (case api req of
        ConnectionFailed \<Rightarrow> Inl ConnectionError
      | TimedOut \<Rightarrow> Inl Timeout
      | Response status body \<Rightarrow> Inr (status, body))"

text \<open>\<open>response.raise_for_status()\<close> raises for the statuses 400 to 599; \<open>response.ok\<close>
  is true when it would not raise.\<close>

definition raise_for_status :: "nat \<Rightarrow> request_exception + unit" where
  "raise_for_status status =
     (if 400 \<le> status \<and> status < 600 then Inl (HTTPError status) else Inr ())"

definition response_ok :: "nat \<Rightarrow> bool" where
  "response_ok status = (case raise_for_status status of Inl e \<Rightarrow> False | Inr u \<Rightarrow> True)"

text \<open>The three statements every \<open>try\<close> block of the fetching functions holds:
  \<open>requests.get\<close>, \<open>raise_for_status\<close>, \<open>response.json()\<close>.\<close>

definition fetch_json :: "remote \<Rightarrow> request \<Rightarrow> request_exception + json_object list" where
  "fetch_json api req =
     (case requests_get api req of
        Inl e \<Rightarrow> Inl e
      | Inr (status, body) \<Rightarrow>
          (case raise_for_status status of Inl e \<Rightarrow> Inl e | Inr u \<Rightarrow> Inr body))"

definition sent_requests :: "event list \<Rightarrow> request list" where
  "sent_requests evs = concat (map (\<lambda>e. case e of Sent r \<Rightarrow> [r] | Printed m \<Rightarrow> []) evs)"

definition sent_limits :: "event list \<Rightarrow> param_value option list" where
  "sent_limits evs = map (\<lambda>r. map_of (params r) ''limit'') (sent_requests evs)"

text \<open>Every request of the events carries a \<open>limit\<close> parameter, an integer of at most \<open>n\<close>.\<close>

definition limit_at_most :: "int \<Rightarrow> event list \<Rightarrow> bool" where
  "limit_at_most n evs =
     list_all (\<lambda>v. case v of Some (PInt k) \<Rightarrow> k \<le> n | Some (PStr s) \<Rightarrow> False | None \<Rightarrow> False)
       (sent_limits evs)"

section \<open>trader_profitability.py\<close>

definition get_active_positions ::
  "remote \<Rightarrow> string \<Rightarrow> int \<Rightarrow> json_object list \<times> event list" where
  "get_active_positions api address limit =
     (let req = \<lparr>url = ''https://data-api.polymarket.com/positions'',
                 params = [(''user'', PStr address), (''limit'', PInt limit),
                           (''redeemable'', PStr ''false'')],
                 timeout = Some 15\<rparr>
      in case fetch_json api req of
           Inr body \<Rightarrow> (body, [Sent req])
         | Inl e \<Rightarrow> ([], [Sent req, Printed ''Error fetching active positions: '']))"

definition get_closed_positions ::
  "remote \<Rightarrow> string \<Rightarrow> int \<Rightarrow> json_object list \<times> event list" where
  "get_closed_positions api address limit =
     (let req = \<lparr>url = ''https://data-api.polymarket.com/closed-positions'',
                 params = [(''user'', PStr address), (''limit'', PInt limit),
                           (''sortBy'', PStr ''REALIZEDPNL''),
                           (''sortDirection'', PStr ''DESC'')],
                 timeout = Some 15\<rparr>
      in case fetch_json api req of
           Inr body \<Rightarrow> (body, [Sent req])
         | Inl e \<Rightarrow> ([], [Sent req, Printed ''Error fetching closed positions: '']))"

record stats =
  total_pnl :: number
  unrealized_pnl :: number
  realized_pnl :: number
  active_positions :: nat
  closed_positions :: nat
  total_positions :: nat
  winning_active :: nat
  losing_active :: nat
  winning_closed :: nat
  losing_closed :: nat
  total_winning :: nat
  total_losing :: nat
  win_rate :: real
  is_profitable :: bool
  active_positions_data :: "json_object list option"
  closed_positions_data :: "json_object list option"

text \<open>
  \<open>calculate_profitability\<close> from the line after the two fetches to its \<open>return\<close>: the
  sums, the four filtered lists and the dictionary of statistics. The \<open>for\<close> loop over
  the active positions adds to its two totals from 0, left to right.
\<close>

definition profitability_stats ::
  "json_object list \<Rightarrow> json_object list \<Rightarrow> bool \<Rightarrow> stats" where
  "profitability_stats active_list closed_list show_details =
     (let unrealized =
            foldl (\<lambda>acc pos. num_add acc (dict_get pos ''cashPnl'' (Num 0))) (Num 0)
              active_list;
          unrealized_from_partials =
            foldl (\<lambda>acc pos. num_add acc (dict_get pos ''realizedPnl'' (Num 0))) (Num 0)
              active_list;
          realized = py_sum (map (\<lambda>pos. dict_get pos ''realizedPnl'' (Num 0)) closed_list);
          total_realized = num_add realized unrealized_from_partials;
          total = num_add unrealized total_realized;
          win_a = filter (\<lambda>p. num_greater (dict_get p ''cashPnl'' (Num 0)) (Num 0)) active_list;
          lose_a = filter (\<lambda>p. num_less (dict_get p ''cashPnl'' (Num 0)) (Num 0)) active_list;
          win_c =
            filter (\<lambda>p. num_greater (dict_get p ''realizedPnl'' (Num 0)) (Num 0)) closed_list;
          lose_c =
            filter (\<lambda>p. num_less (dict_get p ''realizedPnl'' (Num 0)) (Num 0)) closed_list;
          n_total = length active_list + length closed_list;
          n_winning = length win_a + length win_c;
          n_losing = length lose_a + length lose_c
      in \<lparr>total_pnl = total,
          unrealized_pnl = unrealized,
          realized_pnl = total_realized,
          active_positions = length active_list,
          closed_positions = length closed_list,
          total_positions = n_total,
          winning_active = length win_a,
          losing_active = length lose_a,
          winning_closed = length win_c,
          losing_closed = length lose_c,
          total_winning = n_winning,
          total_losing = n_losing,
          win_rate = (if n_total > 0 then real n_winning / real n_total * 100 else 0),
          is_profitable = num_greater total (Num 0),
          active_positions_data = (if show_details then Some active_list else None),
          closed_positions_data = (if show_details then Some closed_list else None)\<rparr>)"

definition calculate_profitability ::
  "remote \<Rightarrow> string \<Rightarrow> bool \<Rightarrow> stats \<times> event list" where
  "calculate_profitability api address show_details =
     (let (active_list, evs_a) = get_active_positions api address 500;
          (closed_list, evs_c) = get_closed_positions api address 50
      in (profitability_stats active_list closed_list show_details,
          [Printed ''Analyzing profitability for ''] @ evs_a @ evs_c))"

text \<open>
  \<open>display_profitability\<close> only prints. The model keeps the verdict and the four lines
  that go through \<open>format_pnl\<close>; the counts and the detailed listing are further lines
  of the same kind.
\<close>

definition display_profitability :: "(number \<Rightarrow> string) \<Rightarrow> stats \<Rightarrow> event list" where
  "display_profitability fixed2 s =
     [Printed (if num_greater (total_pnl s) (Num 0) then ''PROFITABLE''
               else if num_less (total_pnl s) (Num 0) then ''IN LOSS''
               else ''BREAK EVEN''),
      Printed (''Total P&L: '' @ format_pnl fixed2 (total_pnl s)),
      Printed (''Unrealized P&L (Active Positions):  '' @ format_pnl fixed2 (unrealized_pnl s)),
      Printed (''Realized P&L (Closed Positions):    '' @ format_pnl fixed2 (realized_pnl s)),
      Printed (''TOTAL P&L:                           '' @ format_pnl fixed2 (total_pnl s))]"

text \<open>
  \<open>main\<close>, after argparse has given it \<open>--address\<close> and \<open>--detailed\<close>: the result is the
  process's exit code (the argument of \<open>sys.exit\<close>).
\<close>

definition main :: "(number \<Rightarrow> string) \<Rightarrow> remote \<Rightarrow> string \<Rightarrow> bool \<Rightarrow> nat \<times> event list" where
  "main fixed2 api address detailed =
     (case format_address address of
        Inl e \<Rightarrow> (1, [Printed ''Error: ''])
      | Inr formatted_address \<Rightarrow>
          (let (s, evs) = calculate_profitability api formatted_address detailed
           in (if is_profitable s then 0 else 1, evs @ display_profitability fixed2 s)))"

section \<open>trade_analysis.py: closed positions\<close>

record closed_analysis =
  total_closed :: nat
  won_bets :: "json_object list"
  lost_bets :: "json_object list"
  win_count :: nat
  loss_count :: nat
  total_won :: number
  total_lost :: number
  net_pnl :: number

text \<open>One turn of the loop that appends a position to \<open>won_bets\<close> or to \<open>lost_bets\<close>.\<close>

definition sort_bet ::
  "json_object list \<times> json_object list \<Rightarrow> json_object \<Rightarrow>
   json_object list \<times> json_object list" where
  "sort_bet acc pos =
     (let realized = dict_get pos ''realizedPnl'' (Num 0) in
      if num_greater realized (Num 0) then (fst acc @ [pos], snd acc)
      else if num_less realized (Num 0) then (fst acc, snd acc @ [pos])
      else acc)"

text \<open>\<open>format_address\<close> is called inside the \<open>try\<close>, whose \<open>except\<close> catches request
  errors only: its \<open>ValueError\<close> leaves the function.\<close>

definition analyze_closed_positions ::
  "remote \<Rightarrow> string \<Rightarrow> int \<Rightarrow> (value_error + closed_analysis option) \<times> event list" where
  "analyze_closed_positions api address limit =
     (case format_address address of
        Inl e \<Rightarrow> (Inl e, [])
      | Inr user \<Rightarrow>
          (let req = \<lparr>url = ''https://data-api.polymarket.com/closed-positions'',
                      params = [(''user'', PStr user), (''limit'', PInt limit),
                                (''sortBy'', PStr ''TIMESTAMP''),
                                (''sortDirection'', PStr ''DESC'')],
                      timeout = Some 15\<rparr>
           in case fetch_json api req of
                Inl e \<Rightarrow> (Inr None, [Sent req, Printed ''Error fetching closed positions: ''])
              | Inr positions \<Rightarrow>
                  (let (won, lost) = foldl sort_bet ([], []) positions;
                       won_sum = sum_field ''realizedPnl'' won;
                       lost_sum = sum_field ''realizedPnl'' lost
                   in (Inr (Some \<lparr>total_closed = length positions,
                                   won_bets = won,
                                   lost_bets = lost,
                                   win_count = length won,
                                   loss_count = length lost,
                                   total_won = won_sum,
                                   total_lost = lost_sum,
                                   net_pnl = num_add won_sum lost_sum\<rparr>),
                       [Sent req]))))"

section \<open>get_leaderboard.py and get_market_holders.py\<close>

definition get_leaderboard ::
  "remote \<Rightarrow> string \<Rightarrow> string \<Rightarrow> string \<Rightarrow> int \<Rightarrow> json_object list option \<times> event list" where
  "get_leaderboard api category time_period order_by limit =
     (let req = \<lparr>url = ''https://data-api.polymarket.com/v1/leaderboard'',
                 params = [(''category'', PStr (str_upper category)),
                           (''timePeriod'', PStr (str_upper time_period)),
                           (''orderBy'', PStr (str_upper order_by)),
                           (''limit'', PInt (min limit 50))],
                 timeout = Some 15\<rparr>
      in case fetch_json api req of
           Inr body \<Rightarrow> (Some body, [Sent req])
         | Inl e \<Rightarrow> (None, [Sent req, Printed ''Error fetching leaderboard: '']))"

text \<open>\<open>format_condition_id\<close> is called while the parameters are built, before the
  \<open>try\<close>: when it raises, nothing is sent.\<close>

definition get_market_holders ::
  "remote \<Rightarrow> string \<Rightarrow> int \<Rightarrow> (value_error + json_object list option) \<times> event list" where
  "get_market_holders api condition_id limit =
     (case format_condition_id condition_id of
        Inl e \<Rightarrow> (Inl e, [])
      | Inr market \<Rightarrow>
          (let req = \<lparr>url = ''https://data-api.polymarket.com/holders'',
                      params = [(''market'', PStr market), (''limit'', PInt (min limit 20))],
                      timeout = Some 15\<rparr>
           in case fetch_json api req of
                Inr body \<Rightarrow> (Inr (Some body), [Sent req])
              | Inl e \<Rightarrow> (Inr None, [Sent req, Printed ''Error fetching holders: ''])))"

section \<open>redeemable_parameter_demo.py\<close>

text \<open>
  One of the three query blocks of \<open>get_positions_comparison\<close>: a bare \<open>requests.get\<close>
  with no \<open>timeout\<close> and no \<open>try\<close>, then the branch on \<open>response.ok\<close>.
\<close>

definition demo_query ::
  "remote \<Rightarrow> (string \<times> param_value) list \<Rightarrow> string \<Rightarrow>
   (request_exception + unit) \<times> event list" where
  "demo_query api ps found =
     (let req = \<lparr>url = ''https://data-api.polymarket.com/positions'', params = ps,
                 timeout = None\<rparr>
      in case requests_get api req of
           Inl e \<Rightarrow> (Inl e, [Sent req])
         | Inr (status, body) \<Rightarrow>
             if response_ok status then (Inr (), [Sent req, Printed found])
             else (Inr (), [Sent req, Printed ''Error: '']))"

definition get_positions_comparison :: "remote \<Rightarrow> string \<Rightarrow> (exn + unit) \<times> event list" where
  "get_positions_comparison api address =
     (case format_address address of
        Inl e \<Rightarrow> (Inl (ValueError e), [])
      | Inr formatted_addr \<Rightarrow>
          (let common = [(''user'', PStr formatted_addr), (''sizeThreshold'', PInt 1),
                         (''limit'', PInt 100), (''sortBy'', PStr ''TOKENS''),
                         (''sortDirection'', PStr ''DESC'')];
               evs0 = [Printed ''Comparing position queries for: '']
           in case demo_query api (common @ [(''redeemable'', PStr ''false'')])
                     ''active position(s)'' of
                (Inl e, evs1) \<Rightarrow> (Inl (RequestException e), evs0 @ evs1)
              | (Inr u, evs1) \<Rightarrow>
                  (case demo_query api (common @ [(''redeemable'', PStr ''true'')])
                          ''redeemable position(s)'' of
                     (Inl e, evs2) \<Rightarrow> (Inl (RequestException e), evs0 @ evs1 @ evs2)
                   | (Inr u, evs2) \<Rightarrow>
                       (case demo_query api common ''total position(s)'' of
                          (Inl e, evs3) \<Rightarrow>
                            (Inl (RequestException e), evs0 @ evs1 @ evs2 @ evs3)
                        | (Inr u, evs3) \<Rightarrow>
                            (Inr (), evs0 @ evs1 @ evs2 @ evs3 @ [Printed ''SUMMARY''])))))"

section \<open>Facts about the string operations\<close>

lemma lower_char_not_upper:
  assumes "c \<notin> set ''ABCDEFGHIJKLMNOPQRSTUVWXYZ''"
  shows "lower_char c = c"
proof -
  from assms
  have "map_of (zip ''ABCDEFGHIJKLMNOPQRSTUVWXYZ'' ''abcdefghijklmnopqrstuvwxyz'') c = None"
    by (subst map_of_zip_is_None) simp_all
  then show ?thesis
    by (simp only: lower_char_def option.case)
qed

lemma hex_char_not_upper:
  "is_hex_char c \<Longrightarrow> c \<notin> set ''ABCDEFGHIJKLMNOPQRSTUVWXYZ''"
  unfolding is_hex_char_def by auto

lemma hex_char_not_x: "is_hex_char c \<Longrightarrow> c \<noteq> CHR ''x''"
  unfolding is_hex_char_def by auto

lemma lower_char_hex: "is_hex_char c \<Longrightarrow> lower_char c = c"
  by (rule lower_char_not_upper) (rule hex_char_not_upper)

lemma str_lower_hex: "list_all is_hex_char h \<Longrightarrow> str_lower h = h"
  unfolding str_lower_def
  by (induction h) (simp_all add: lower_char_hex)

lemma replace_0x_no_x: "CHR ''x'' \<notin> set s \<Longrightarrow> replace_0x s = s"
  by (induction s rule: replace_0x.induct) auto

lemma hex_no_x: "list_all is_hex_char h \<Longrightarrow> CHR ''x'' \<notin> set h"
  by (induction h) (auto dest: hex_char_not_x)

lemma replace_0x_hex: "list_all is_hex_char h \<Longrightarrow> replace_0x h = h"
  by (simp add: replace_0x_no_x hex_no_x)

lemma clean_of_hex:
  "list_all is_hex_char h \<Longrightarrow> replace_0x (str_lower h) = h"
  by (simp add: str_lower_hex replace_0x_hex)

lemma clean_of_prefixed_hex:
  assumes "list_all is_hex_char h"
  shows "replace_0x (str_lower (''0x'' @ h)) = h"
proof -
  have "str_lower (''0x'' @ h) = ''0x'' @ h"
    using assms str_lower_hex [of h]
    by (simp add: str_lower_def lower_char_not_upper)
  then show ?thesis
    using assms by (simp add: replace_0x_hex)
qed

lemma format_address_hex:
  assumes "length h = 40" and "list_all is_hex_char h"
  shows "format_address h = Inr (''0x'' @ h)"
    and "format_address (''0x'' @ h) = Inr (''0x'' @ h)"
proof -
  from assms(1) have "h \<noteq> []" by auto
  then show "format_address h = Inr (''0x'' @ h)"
    using assms by (simp add: format_address_def clean_of_hex)
  show "format_address (''0x'' @ h) = Inr (''0x'' @ h)"
    using assms
    by (simp only: format_address_def clean_of_prefixed_hex Let_def) simp
qed

lemma format_condition_id_hex:
  assumes "length h = 64" and "list_all is_hex_char h"
  shows "format_condition_id h = Inr (''0x'' @ h)"
    and "format_condition_id (''0x'' @ h) = Inr (''0x'' @ h)"
proof -
  from assms(1) have "h \<noteq> []" by auto
  then show "format_condition_id h = Inr (''0x'' @ h)"
    using assms by (simp add: format_condition_id_def clean_of_hex)
  show "format_condition_id (''0x'' @ h) = Inr (''0x'' @ h)"
    using assms
    by (simp only: format_condition_id_def clean_of_prefixed_hex Let_def) simp
qed

lemma format_address_shape:
  assumes "format_address s = Inr v"
  shows "\<exists>h. v = ''0x'' @ h \<and> length h = 40 \<and> list_all is_hex_char h"
  using assms
  by (auto simp: format_address_def Let_def split: if_splits)

lemma format_condition_id_shape:
  assumes "format_condition_id s = Inr v"
  shows "\<exists>h. v = ''0x'' @ h \<and> length h = 64 \<and> list_all is_hex_char h"
  using assms
  by (auto simp: format_condition_id_def Let_def split: if_splits)

section \<open>Facts about the aggregation\<close>


text \<open>A number that is not \<open>NaN\<close> is above 0, below 0 or 0, and only one of the three.\<close>

lemma sign_cases:
  "x \<noteq> NaN \<Longrightarrow>
     (num_greater x (Num 0) \<and> \<not> num_less x (Num 0) \<and> x \<noteq> Num 0)
     \<or> (\<not> num_greater x (Num 0) \<and> num_less x (Num 0) \<and> x \<noteq> Num 0)
     \<or> (\<not> num_greater x (Num 0) \<and> \<not> num_less x (Num 0) \<and> x = Num 0)"
  by (cases x) (auto simp: num_greater_def)

lemma sign_partition:
  assumes "list_all (\<lambda>p. f p \<noteq> NaN) xs"
  shows "length (filter (\<lambda>p. num_greater (f p) (Num 0)) xs)
         + length (filter (\<lambda>p. num_less (f p) (Num 0)) xs)
         + length (filter (\<lambda>p. f p = Num 0) xs) = length xs"
  using assms
proof (induction xs)
  case Nil
  then show ?case by simp
next
  case (Cons p ps)
  then have "f p \<noteq> NaN" and "list_all (\<lambda>p. f p \<noteq> NaN) ps"
    by simp_all
  with Cons.IH sign_cases [of "f p"] show ?case
    by auto
qed

lemma foldl_sort_bet:
  "foldl sort_bet (won, lost) ps =
     (won @ filter (\<lambda>p. num_greater (dict_get p ''realizedPnl'' (Num 0)) (Num 0)) ps,
      lost @ filter (\<lambda>p. num_less (dict_get p ''realizedPnl'' (Num 0)) (Num 0)) ps)"
proof (induction ps arbitrary: won lost)
  case Nil
  then show ?case by simp
next
  case (Cons p ps)
  have "\<not> (num_greater (dict_get p ''realizedPnl'' (Num 0)) (Num 0)
            \<and> num_less (dict_get p ''realizedPnl'' (Num 0)) (Num 0))"
    by (cases "dict_get p ''realizedPnl'' (Num 0)") (auto simp: num_greater_def)
  with Cons show ?case
    by (auto simp: sort_bet_def Let_def)
qed

lemma profitability_stats_profitable:
  "is_profitable (profitability_stats al cl d)
     = num_greater (total_pnl (profitability_stats al cl d)) (Num 0)"
  by (simp add: profitability_stats_def Let_def)

lemma calculate_profitability_profitable:
  "is_profitable (fst (calculate_profitability api a d))
     = num_greater (total_pnl (fst (calculate_profitability api a d))) (Num 0)"
  by (simp add: calculate_profitability_def Let_def case_prod_beta
      profitability_stats_profitable)

lemma example_address_accepted:
  "format_address ''0x56687BF447db6ffa42ffe2204a05edaa20f55839''
     = Inr ''0x56687bf447db6ffa42ffe2204a05edaa20f55839''"
  by (simp add: format_address_def str_lower_def lower_char_def is_hex_char_def)

lemma short_address_rejected: "format_address ''0x1234'' = Inl (InvalidLength 4)"
  by (simp add: format_address_def str_lower_def lower_char_def)

lemma example_total_positive:
  "total_pnl (fst (calculate_profitability (\<lambda>r. Response 200 [[''cashPnl'' \<mapsto> Num 5]])
       ''0x56687bf447db6ffa42ffe2204a05edaa20f55839'' False)) = Num 5"
  by (simp add: calculate_profitability_def get_active_positions_def
      get_closed_positions_def fetch_json_def requests_get_def raise_for_status_def
      profitability_stats_def py_sum_def dict_get_def Let_def)

lemma example_total_zero:
  "total_pnl (fst (calculate_profitability (\<lambda>r. TimedOut)
       ''0x56687bf447db6ffa42ffe2204a05edaa20f55839'' False)) = Num 0"
  by (simp add: calculate_profitability_def get_active_positions_def
      get_closed_positions_def fetch_json_def requests_get_def raise_for_status_def
      profitability_stats_def py_sum_def dict_get_def Let_def)

section \<open>The validators: claims\<close>

text \<open>
  C1. The claim: \<open>format_address\<close> strips one optional leading \<open>0x\<close>, and rejects every
  string whose lowercased form without that prefix is not exactly 40 hexadecimal digits
  (64 for \<open>format_condition_id\<close>). The code deletes every occurrence of \<open>0x\<close>, not only a
  leading one: an address with the prefix written twice, and a condition id followed by
  \<open>0x\<close>, are both accepted, although neither is 40 (or 64) hexadecimal digits after one
  prefix is taken off.
\<close>

theorem format_address_deletes_inner_0x:
  "format_address ''0x0x56687bf447db6ffa42ffe2204a05edaa20f55839''
     = Inr ''0x56687bf447db6ffa42ffe2204a05edaa20f55839''
   \<and> format_condition_id
       ''dd22472e552920b8438158ea7238bfadfa4f736aa4cee91a6b86c39ead1109170x''
     = Inr ''0xdd22472e552920b8438158ea7238bfadfa4f736aa4cee91a6b86c39ead110917''"
  by (simp add: format_address_def format_condition_id_def str_lower_def lower_char_def
      is_hex_char_def)

text \<open>
  C5. The validators accept their input with or without the prefix and are idempotent:
  for 40 lowercase hexadecimal digits \<open>h\<close>, \<open>format_address\<close> maps both \<open>0x\<close> followed by
  \<open>h\<close> and \<open>h\<close> itself to \<open>0x\<close> followed by \<open>h\<close>; whatever \<open>format_address\<close> returns, it
  returns again when applied to it. The same holds for \<open>format_condition_id\<close> with 64
  digits.
\<close>

theorem validators_idempotent:
  "(length h = 40 \<and> list_all is_hex_char h \<longrightarrow>
      format_address (''0x'' @ h) = Inr (''0x'' @ h) \<and> format_address h = Inr (''0x'' @ h))
   \<and> (format_address s = Inr v \<longrightarrow> format_address v = Inr v)
   \<and> (length g = 64 \<and> list_all is_hex_char g \<longrightarrow>
      format_condition_id (''0x'' @ g) = Inr (''0x'' @ g)
      \<and> format_condition_id g = Inr (''0x'' @ g))
   \<and> (format_condition_id t = Inr w \<longrightarrow> format_condition_id w = Inr w)"
proof (intro conjI impI)
  assume "length h = 40 \<and> list_all is_hex_char h"
  then show "format_address (''0x'' @ h) = Inr (''0x'' @ h)"
    and "format_address h = Inr (''0x'' @ h)"
    using format_address_hex [of h] by blast+
next
  assume "format_address s = Inr v"
  then obtain c where "v = ''0x'' @ c" "length c = 40" "list_all is_hex_char c"
    using format_address_shape by blast
  then show "format_address v = Inr v"
    using format_address_hex(2) [of c] by blast
next
  assume "length g = 64 \<and> list_all is_hex_char g"
  then show "format_condition_id (''0x'' @ g) = Inr (''0x'' @ g)"
    and "format_condition_id g = Inr (''0x'' @ g)"
    using format_condition_id_hex [of g] by blast+
next
  assume "format_condition_id t = Inr w"
  then obtain c where "w = ''0x'' @ c" "length c = 64" "list_all is_hex_char c"
    using format_condition_id_shape by blast
  then show "format_condition_id w = Inr w"
    using format_condition_id_hex(2) [of c] by blast
qed

theorem validators_idempotent_witness:
  "format_address (''0x'' @ ''56687bf447db6ffa42ffe2204a05edaa20f55839'')
     = Inr (''0x'' @ ''56687bf447db6ffa42ffe2204a05edaa20f55839'')
   \<and> format_address ''56687bf447db6ffa42ffe2204a05edaa20f55839''
     = Inr (''0x'' @ ''56687bf447db6ffa42ffe2204a05edaa20f55839'')
   \<and> format_address ''0X56687BF447DB6FFA42FFE2204A05EDAA20F55839''
     = Inr ''0x56687bf447db6ffa42ffe2204a05edaa20f55839''
   \<and> format_address ''0x56687bf447db6ffa42ffe2204a05edaa20f55839''
     = Inr ''0x56687bf447db6ffa42ffe2204a05edaa20f55839''
   \<and> format_condition_id
        (''0x'' @ ''dd22472e552920b8438158ea7238bfadfa4f736aa4cee91a6b86c39ead110917'')
     = Inr (''0x'' @ ''dd22472e552920b8438158ea7238bfadfa4f736aa4cee91a6b86c39ead110917'')
   \<and> format_condition_id ''dd22472e552920b8438158ea7238bfadfa4f736aa4cee91a6b86c39ead110917''
     = Inr (''0x'' @ ''dd22472e552920b8438158ea7238bfadfa4f736aa4cee91a6b86c39ead110917'')
   \<and> format_condition_id ''DD22472E552920B8438158EA7238BFADFA4F736AA4CEE91A6B86C39EAD110917''
     = Inr ''0xdd22472e552920b8438158ea7238bfadfa4f736aa4cee91a6b86c39ead110917''
   \<and> format_condition_id ''0xdd22472e552920b8438158ea7238bfadfa4f736aa4cee91a6b86c39ead110917''
     = Inr ''0xdd22472e552920b8438158ea7238bfadfa4f736aa4cee91a6b86c39ead110917''"
proof -
  have h: "length ''56687bf447db6ffa42ffe2204a05edaa20f55839'' = 40
     \<and> list_all is_hex_char ''56687bf447db6ffa42ffe2204a05edaa20f55839''"
    by (simp add: is_hex_char_def)
  have s: "format_address ''0X56687BF447DB6FFA42FFE2204A05EDAA20F55839''
     = Inr ''0x56687bf447db6ffa42ffe2204a05edaa20f55839''"
    by (simp add: format_address_def str_lower_def lower_char_def is_hex_char_def)
  have g: "length ''dd22472e552920b8438158ea7238bfadfa4f736aa4cee91a6b86c39ead110917'' = 64
     \<and> list_all is_hex_char
         ''dd22472e552920b8438158ea7238bfadfa4f736aa4cee91a6b86c39ead110917''"
    by (simp add: is_hex_char_def)
  have t: "format_condition_id
       ''DD22472E552920B8438158EA7238BFADFA4F736AA4CEE91A6B86C39EAD110917''
     = Inr ''0xdd22472e552920b8438158ea7238bfadfa4f736aa4cee91a6b86c39ead110917''"
    by (simp add: format_condition_id_def str_lower_def lower_char_def is_hex_char_def)
  show ?thesis
    using h s g t
      validators_idempotent
        [of "''56687bf447db6ffa42ffe2204a05edaa20f55839''"
            "''0X56687BF447DB6FFA42FFE2204A05EDAA20F55839''"
            "''0x56687bf447db6ffa42ffe2204a05edaa20f55839''"
            "''dd22472e552920b8438158ea7238bfadfa4f736aa4cee91a6b86c39ead110917''"
            "''DD22472E552920B8438158EA7238BFADFA4F736AA4CEE91A6B86C39EAD110917''"
            "''0xdd22472e552920b8438158ea7238bfadfa4f736aa4cee91a6b86c39ead110917''"]
    by blast
qed

text \<open>
  C9. Whatever \<open>format_address\<close> returns is \<open>0x\<close> followed by exactly 40 lowercase
  hexadecimal digits; whatever \<open>format_condition_id\<close> returns is \<open>0x\<close> followed by
  exactly 64.
\<close>

theorem validators_output_shape:
  "(format_address s = Inr v \<longrightarrow>
      take 2 v = ''0x'' \<and> length (drop 2 v) = 40 \<and> list_all is_hex_char (drop 2 v))
   \<and> (format_condition_id t = Inr w \<longrightarrow>
      take 2 w = ''0x'' \<and> length (drop 2 w) = 64 \<and> list_all is_hex_char (drop 2 w))"
  using format_address_shape [of s v] format_condition_id_shape [of t w] by auto

theorem validators_output_shape_witness:
  "take 2 ''0x56687bf447db6ffa42ffe2204a05edaa20f55839'' = ''0x''
   \<and> length (drop 2 ''0x56687bf447db6ffa42ffe2204a05edaa20f55839'') = 40
   \<and> list_all is_hex_char (drop 2 ''0x56687bf447db6ffa42ffe2204a05edaa20f55839'')
   \<and> take 2 ''0xdd22472e552920b8438158ea7238bfadfa4f736aa4cee91a6b86c39ead110917'' = ''0x''
   \<and> length (drop 2 ''0xdd22472e552920b8438158ea7238bfadfa4f736aa4cee91a6b86c39ead110917'')
       = 64
   \<and> list_all is_hex_char
        (drop 2 ''0xdd22472e552920b8438158ea7238bfadfa4f736aa4cee91a6b86c39ead110917'')"
proof -
  have s: "format_address ''56687BF447db6ffa42ffe2204a05edaa20f55839''
     = Inr ''0x56687bf447db6ffa42ffe2204a05edaa20f55839''"
    by (simp add: format_address_def str_lower_def lower_char_def is_hex_char_def)
  have t: "format_condition_id
       ''0Xdd22472e552920b8438158ea7238bfadfa4f736aa4cee91a6b86c39ead110917''
     = Inr ''0xdd22472e552920b8438158ea7238bfadfa4f736aa4cee91a6b86c39ead110917''"
    by (simp add: format_condition_id_def str_lower_def lower_char_def is_hex_char_def)
  show ?thesis
    using s t
      validators_output_shape
        [of "''56687BF447db6ffa42ffe2204a05edaa20f55839''"
            "''0x56687bf447db6ffa42ffe2204a05edaa20f55839''"
            "''0Xdd22472e552920b8438158ea7238bfadfa4f736aa4cee91a6b86c39ead110917''"
            "''0xdd22472e552920b8438158ea7238bfadfa4f736aa4cee91a6b86c39ead110917''"]
    by blast
qed

section \<open>Aggregation and formatting: claims\<close>

text \<open>
  C3. Sums over records read from JSON, where a record without the field counts as 0:
  the sum of \<open>cashPnl\<close> over the empty list is 0 (as is the unrealized P&L that
  \<open>calculate_profitability\<close> computes from no active position), and the sum of \<open>pnl\<close> over
  three leaderboard entries whose \<open>pnl\<close> values are 10, -5 and 0 is 5.
\<close>

theorem sum_field_totals:
  "sum_field ''cashPnl'' [] = Num 0
   \<and> unrealized_pnl (profitability_stats [] cl d) = Num 0
   \<and> (a ''pnl'' = Some (Num 10) \<and> b ''pnl'' = Some (Num (- 5)) \<and> c ''pnl'' = Some (Num 0) \<longrightarrow>
        sum_field ''pnl'' [a, b, c] = Num 5)
   \<and> (p k = None \<longrightarrow> sum_field k (p # ps) = sum_field k ps)"
  by (simp add: sum_field_def py_sum_def dict_get_def profitability_stats_def Let_def)

theorem sum_field_totals_witness:
  "sum_field ''pnl''
     [[''pnl'' \<mapsto> Num 10, ''vol'' \<mapsto> Num 250], [''pnl'' \<mapsto> Num (- 5)], [''pnl'' \<mapsto> Num 0]] = Num 5
   \<and> sum_field ''pnl'' [[''vol'' \<mapsto> Num 3], [''pnl'' \<mapsto> Num 7]]
     = sum_field ''pnl'' [[''pnl'' \<mapsto> Num 7]]"
  using sum_field_totals
    [where a = "[''pnl'' \<mapsto> Num 10, ''vol'' \<mapsto> Num 250]" and b = "[''pnl'' \<mapsto> Num (- 5)]"
       and c = "[''pnl'' \<mapsto> Num 0]" and p = "[''vol'' \<mapsto> Num 3]" and k = "''pnl''"
       and ps = "[[''pnl'' \<mapsto> Num 7]]"]
  by simp

text \<open>
  C4. The claim: in \<open>calculate_profitability\<close>, for every list of active and of closed
  positions, the positions with a strictly positive P&L, those with a strictly negative
  one and those with a P&L of exactly zero add up to the length of the list. It fails on a
  position whose P&L is \<open>NaN\<close>, which the JSON reader accepts: such a position is neither
  above nor below nor equal to 0, and none of the three counts includes it.
\<close>

theorem win_loss_partition_fails_on_nan:
  "winning_active (profitability_stats [[''cashPnl'' \<mapsto> NaN], [''cashPnl'' \<mapsto> Num 1]] [] False)
     + losing_active (profitability_stats [[''cashPnl'' \<mapsto> NaN], [''cashPnl'' \<mapsto> Num 1]] [] False)
     + length (filter (\<lambda>p. dict_get p ''cashPnl'' (Num 0) = Num 0)
         [[''cashPnl'' \<mapsto> NaN], [''cashPnl'' \<mapsto> Num 1]])
   \<noteq> length [[''cashPnl'' \<mapsto> NaN], [''cashPnl'' \<mapsto> Num 1]]"
  by (simp add: profitability_stats_def dict_get_def num_greater_def Let_def)

text \<open>
  C4, as amended. In \<open>calculate_profitability\<close>, for every list of active positions none
  of whose \<open>cashPnl\<close> is \<open>NaN\<close> and every list of closed positions none of whose
  \<open>realizedPnl\<close> is \<open>NaN\<close> (a missing field counting as 0), the win/loss counts partition
  each list: the positions with a strictly positive P&L, those with a strictly negative one
  and those with a P&L of exactly zero add up to the length of the list, and
  \<open>total_winning + total_losing\<close> plus the two zero counts is \<open>total_positions\<close>. The loop
  of \<open>analyze_closed_positions\<close> partitions such a list of closed positions the same way.
\<close>

theorem win_loss_partition:
  assumes "list_all (\<lambda>p. dict_get p ''cashPnl'' (Num 0) \<noteq> NaN) al"
    and "list_all (\<lambda>p. dict_get p ''realizedPnl'' (Num 0) \<noteq> NaN) cl"
  shows
  "winning_active (profitability_stats al cl d) + losing_active (profitability_stats al cl d)
     + length (filter (\<lambda>p. dict_get p ''cashPnl'' (Num 0) = Num 0) al) = length al
   \<and> winning_closed (profitability_stats al cl d) + losing_closed (profitability_stats al cl d)
     + length (filter (\<lambda>p. dict_get p ''realizedPnl'' (Num 0) = Num 0) cl) = length cl
   \<and> total_winning (profitability_stats al cl d) + total_losing (profitability_stats al cl d)
     + (length (filter (\<lambda>p. dict_get p ''cashPnl'' (Num 0) = Num 0) al)
        + length (filter (\<lambda>p. dict_get p ''realizedPnl'' (Num 0) = Num 0) cl))
     = total_positions (profitability_stats al cl d)
   \<and> total_positions (profitability_stats al cl d) = length al + length cl
   \<and> length (fst (foldl sort_bet ([], []) cl)) + length (snd (foldl sort_bet ([], []) cl))
     + length (filter (\<lambda>p. dict_get p ''realizedPnl'' (Num 0) = Num 0) cl) = length cl"
proof -
  have a: "length (filter (\<lambda>p. num_greater (dict_get p ''cashPnl'' (Num 0)) (Num 0)) al)
      + length (filter (\<lambda>p. num_less (dict_get p ''cashPnl'' (Num 0)) (Num 0)) al)
      + length (filter (\<lambda>p. dict_get p ''cashPnl'' (Num 0) = Num 0) al) = length al"
    using assms(1) by (rule sign_partition)
  have c: "length (filter (\<lambda>p. num_greater (dict_get p ''realizedPnl'' (Num 0)) (Num 0)) cl)
      + length (filter (\<lambda>p. num_less (dict_get p ''realizedPnl'' (Num 0)) (Num 0)) cl)
      + length (filter (\<lambda>p. dict_get p ''realizedPnl'' (Num 0) = Num 0) cl) = length cl"
    using assms(2) by (rule sign_partition)
  show ?thesis
    using a c by (simp add: profitability_stats_def Let_def foldl_sort_bet)
qed

theorem win_loss_partition_witness:
  "winning_active (profitability_stats
       [[''cashPnl'' \<mapsto> Num 4], [''cashPnl'' \<mapsto> NegInf], [''size'' \<mapsto> Num 2]]
       [[''realizedPnl'' \<mapsto> Num 0], [''cashPnl'' \<mapsto> NaN]] False) = 1
   \<and> losing_active (profitability_stats
       [[''cashPnl'' \<mapsto> Num 4], [''cashPnl'' \<mapsto> NegInf], [''size'' \<mapsto> Num 2]]
       [[''realizedPnl'' \<mapsto> Num 0], [''cashPnl'' \<mapsto> NaN]] False) = 1
   \<and> length (filter (\<lambda>p. dict_get p ''cashPnl'' (Num 0) = Num 0)
       [[''cashPnl'' \<mapsto> Num 4], [''cashPnl'' \<mapsto> NegInf], [''size'' \<mapsto> Num 2]]) = 1
   \<and> total_positions (profitability_stats
       [[''cashPnl'' \<mapsto> Num 4], [''cashPnl'' \<mapsto> NegInf], [''size'' \<mapsto> Num 2]]
       [[''realizedPnl'' \<mapsto> Num 0], [''cashPnl'' \<mapsto> NaN]] False) = 5"
proof -
  have al: "list_all (\<lambda>p. dict_get p ''cashPnl'' (Num 0) \<noteq> NaN)
      [[''cashPnl'' \<mapsto> Num 4], [''cashPnl'' \<mapsto> NegInf], [''size'' \<mapsto> Num 2]]"
    by (simp add: dict_get_def)
  have cl: "list_all (\<lambda>p. dict_get p ''realizedPnl'' (Num 0) \<noteq> NaN)
      [[''realizedPnl'' \<mapsto> Num 0], [''cashPnl'' \<mapsto> NaN]]"
    by (simp add: dict_get_def)
  show ?thesis
    using win_loss_partition [OF al cl, of False]
    by (simp add: dict_get_def profitability_stats_def num_greater_def Let_def)
qed



section \<open>The scripts: claims\<close>

text \<open>
  C7. \<open>trader_profitability.py\<close> exits with code 1 when the address does not validate;
  otherwise it exits with 0 exactly when the total P&L it computed is positive, and with 1
  when it is not (break-even included).
\<close>

theorem exit_code_signals_profit:
  "(format_address address = Inl e \<longrightarrow> fst (main f api address d) = 1)
   \<and> (format_address address = Inr a \<longrightarrow>
        fst (main f api address d)
          = (if num_greater (total_pnl (fst (calculate_profitability api a d))) (Num 0)
             then 0 else 1))"
  by (simp add: main_def Let_def case_prod_beta calculate_profitability_profitable)

theorem exit_code_signals_profit_witness:
  "fst (main (\<lambda>r. ''0.00'') (\<lambda>r. TimedOut) ''0x1234'' False) = 1
   \<and> fst (main (\<lambda>r. ''0.00'') (\<lambda>r. Response 200 [[''cashPnl'' \<mapsto> Num 5]])
        ''0x56687BF447db6ffa42ffe2204a05edaa20f55839'' False) = 0
   \<and> fst (main (\<lambda>r. ''0.00'') (\<lambda>r. TimedOut)
        ''0x56687BF447db6ffa42ffe2204a05edaa20f55839'' False) = 1"
  using example_address_accepted short_address_rejected example_total_positive example_total_zero
    exit_code_signals_profit
      [where address = "''0x1234''" and e = "InvalidLength 4" and f = "\<lambda>r. ''0.00''"
         and api = "\<lambda>r. TimedOut" and d = False]
    exit_code_signals_profit
      [where address = "''0x56687BF447db6ffa42ffe2204a05edaa20f55839''"
         and a = "''0x56687bf447db6ffa42ffe2204a05edaa20f55839''" and f = "\<lambda>r. ''0.00''"
         and api = "\<lambda>r. Response 200 [[''cashPnl'' \<mapsto> Num 5]]" and d = False]
    exit_code_signals_profit
      [where address = "''0x56687BF447db6ffa42ffe2204a05edaa20f55839''"
         and a = "''0x56687bf447db6ffa42ffe2204a05edaa20f55839''" and f = "\<lambda>r. ''0.00''"
         and api = "\<lambda>r. TimedOut" and d = False]
  by (simp add: num_greater_def)

text \<open>
  C10. Whatever limit the caller passes, \<open>get_leaderboard\<close> sends \<open>min(limit, 50)\<close> as its
  \<open>limit\<close> parameter, which is at most 50, and \<open>get_market_holders\<close> sends
  \<open>min(limit, 20)\<close>, at most 20 (it sends nothing when the condition id does not validate).
\<close>

theorem request_limits_capped:
  "sent_limits (snd (get_leaderboard api c t ob l)) = [Some (PInt (min l 50))]
   \<and> limit_at_most 50 (snd (get_leaderboard api c t ob l))
   \<and> (format_condition_id cid = Inl e \<longrightarrow>
        sent_limits (snd (get_market_holders api cid l)) = [])
   \<and> (format_condition_id cid = Inr m \<longrightarrow>
        sent_limits (snd (get_market_holders api cid l)) = [Some (PInt (min l 20))])
   \<and> limit_at_most 20 (snd (get_market_holders api cid l))"
  by (simp add: get_leaderboard_def get_market_holders_def limit_at_most_def sent_limits_def
      sent_requests_def Let_def split: sum.splits)

theorem request_limits_capped_witness:
  "sent_limits (snd (get_leaderboard (\<lambda>r. Response 200 []) ''overall'' ''day'' ''pnl'' 1000))
     = [Some (PInt 50)]
   \<and> sent_limits (snd (get_market_holders (\<lambda>r. Response 200 []) ''0xzz'' 1000)) = []
   \<and> sent_limits (snd (get_market_holders (\<lambda>r. Response 200 [])
        ''0xDD22472e552920b8438158ea7238bfadfa4f736aa4cee91a6b86c39ead110917'' 1000))
     = [Some (PInt 20)]"
proof -
  have bad: "format_condition_id ''0xzz'' = Inl (InvalidLength 2)"
    by (simp add: format_condition_id_def str_lower_def lower_char_def)
  have good: "format_condition_id
       ''0xDD22472e552920b8438158ea7238bfadfa4f736aa4cee91a6b86c39ead110917''
     = Inr ''0xdd22472e552920b8438158ea7238bfadfa4f736aa4cee91a6b86c39ead110917''"
    by (simp add: format_condition_id_def str_lower_def lower_char_def is_hex_char_def)
  show ?thesis
    using bad good
      request_limits_capped
        [where api = "\<lambda>r. Response 200 []" and c = "''overall''" and t = "''day''"
           and ob = "''pnl''" and l = 1000 and cid = "''0xzz''" and e = "InvalidLength 2"]
      request_limits_capped
        [where api = "\<lambda>r. Response 200 []" and l = 1000
           and cid = "''0xDD22472e552920b8438158ea7238bfadfa4f736aa4cee91a6b86c39ead110917''"
           and m = "''0xdd22472e552920b8438158ea7238bfadfa4f736aa4cee91a6b86c39ead110917''"]
    by simp
qed

text \<open>
  C2. The claim: every GET request of the scripts carries a timeout, and every network
  failure is caught where the request is made. The three requests of
  \<open>redeemable_parameter_demo.py\<close> carry none and stand outside any \<open>try\<close>: a timed-out or
  refused connection leaves \<open>get_positions_comparison\<close> as an exception.
\<close>

theorem demo_request_failure_escapes:
  "fst (get_positions_comparison (\<lambda>r. TimedOut) ''0x56687bf447db6ffa42ffe2204a05edaa20f55839'')
     = Inl (RequestException Timeout)
   \<and> map timeout (sent_requests (snd (get_positions_comparison (\<lambda>r. TimedOut)
        ''0x56687bf447db6ffa42ffe2204a05edaa20f55839''))) = [None]
   \<and> fst (get_positions_comparison (\<lambda>r. ConnectionFailed)
        ''0x56687bf447db6ffa42ffe2204a05edaa20f55839'')
     = Inl (RequestException ConnectionError)
   \<and> map timeout (sent_requests (snd (get_positions_comparison (\<lambda>r. Response 200 [])
        ''0x56687bf447db6ffa42ffe2204a05edaa20f55839''))) = [None, None, None]"
proof -
  have a: "format_address ''0x56687bf447db6ffa42ffe2204a05edaa20f55839''
     = Inr ''0x56687bf447db6ffa42ffe2204a05edaa20f55839''"
    by (simp add: format_address_def str_lower_def lower_char_def is_hex_char_def)
  show ?thesis
    by (simp add: get_positions_comparison_def a demo_query_def requests_get_def
        response_ok_def raise_for_status_def sent_requests_def Let_def)
qed

end
